theory Spec2Isabelle
  imports Complex_Main
begin

section \<open>The signal handlers of the Braincast API\<close>

text \<open>
  The repository holds two near-duplicate serverless handlers that derive a trading
  directive from scraped indicator counts and a spot price. Both are embedded here, one
  definition per segment of the handler body, and suffixed by the part they come from:
  \<open>_000\<close> for the handler that sums all seven timeframes for the direction and
  rounds in the response, \<open>_001\<close> for the handler that uses the three lowest timeframes
  and rounds the levels as it computes them.

  Numbers. The counts come from \<open>parseInt\<close> on \<open>\d+\<close>, so they are natural numbers.
  Prices and ratios are JavaScript numbers; they are embedded as exact reals, so the
  embedding describes the arithmetic the handlers write down and not the rounding of
  IEEE doubles, NaN or the infinities. \<open>Math.round\<close> rounds to the nearest integer with
  ties towards plus infinity.

  Effects. The two network requests are inputs of the model. The first argument of a
  handler is what the outer \<open>try\<close> block obtained from the technical-analysis page:
  either an exception (the request rejected, the status was not ok, the body could not be
  read, the dynamic import failed) or the list of regular-expression matches. The second
  argument is the \<open>usd\<close> field of the price response, \<open>None\<close> when the request failed,
  the status was not ok or the field is missing; the inner \<open>try\<close> block turns all of
  these into the price 0.
\<close>

subsection \<open>Data\<close>

datatype direction = LONG | SHORT

datatype error = FetchRejected | BadStatus nat | BodyUnreadable | ImportFailed

type_synonym counts = "nat \<times> nat \<times> nat"

record frame =
  timeframe :: string
  up :: nat
  down :: nat
  neutral :: nat

record directive =
  signal :: direction
  entryPrice :: real
  targetPrice :: int
  stopPrice :: int
  leverage :: int

record response =
  status :: nat
  json :: directive

subsection \<open>JavaScript library functions\<close>

definition Math_round :: "real \<Rightarrow> int" where
  "Math_round x = \<lfloor>x + 1 / 2\<rfloor>"

text \<open>\<open>xs[i]\<close>: \<open>undefined\<close> (here \<open>None\<close>) beyond the end of the array.\<close>

fun index :: "'a list \<Rightarrow> nat \<Rightarrow> 'a option" where
  "index [] i = None"
| "index (x # xs) 0 = Some x"
| "index (x # xs) (Suc i) = index xs i"

text \<open>\<open>xs.map((x, idx) => f(x, idx))\<close>, the index counted from \<open>i\<close>.\<close>

fun map_idx :: "('a \<Rightarrow> nat \<Rightarrow> 'b) \<Rightarrow> nat \<Rightarrow> 'a list \<Rightarrow> 'b list" where
  "map_idx f i [] = []"
| "map_idx f i (x # xs) = f x i # map_idx f (Suc i) xs"

text \<open>
  \<open>xs.slice(start, fin)\<close>: a negative index counts from the end, and both indices are
  clipped to the array.
\<close>

definition slice :: "'a list \<Rightarrow> int \<Rightarrow> int \<Rightarrow> 'a list" where
  "slice xs start fin =
     (let len = int (length xs);
          k = (if start < 0 then max (len + start) 0 else min start len);
          final = (if fin < 0 then max (len + fin) 0 else min fin len)
      in take (nat (final - k)) (drop (nat k) xs))"

text \<open>\<open>xs.slice(start)\<close>: the end defaults to the length.\<close>

definition slice_from :: "'a list \<Rightarrow> int \<Rightarrow> 'a list" where
  "slice_from xs start = slice xs start (int (length xs))"

subsection \<open>The timeframe summary (both handlers)\<close>

definition timeframes :: "string list" where
  "timeframes = [''5m'', ''15m'', ''1h'', ''2h'', ''4h'', ''6h'', ''1d'']"

definition summary :: "counts list \<Rightarrow> frame list" where
  "summary matches =
     map_idx (\<lambda>tf idx.
        case (case index matches idx of None \<Rightarrow> (0, 0, 0) | Some m \<Rightarrow> m) of
          (u, d, n) \<Rightarrow> \<lparr>timeframe = tf, up = u, down = d, neutral = n\<rparr>)
       0 timeframes"

definition fallback_directive :: directive where
  "fallback_directive =
     \<lparr>signal = LONG, entryPrice = 119500, targetPrice = 121500, stopPrice = 119200,
      leverage = 30\<rparr>"

subsection \<open>Handler 000: direction from all timeframes\<close>

text \<open>The \<open>forEach\<close> over the frames, with the accumulators \<open>(totalUp, totalDown)\<close>.\<close>

definition direction_000 :: "frame list \<Rightarrow> direction" where
  "direction_000 frames =
     (case foldl (\<lambda>(totalUp, totalDown) f. (totalUp + up f, totalDown + down f))
             (0, 0) frames of
        (totalUp, totalDown) \<Rightarrow> if totalUp > totalDown then LONG else SHORT)"

text \<open>
  The loop over \<open>higherFrames\<close> keeps \<open>(higherUp, higherDown, higherTotal)\<close>; the
  rounded value is clamped by \<open>Math.min(50, Math.max(30, leverage))\<close>.
\<close>

definition consensusRatio_000 :: "direction \<Rightarrow> frame list \<Rightarrow> real" where
  "consensusRatio_000 dir higherFrames =
     (case foldl (\<lambda>(higherUp, higherDown, higherTotal) f.
                    (higherUp + up f, higherDown + down f, higherTotal + (up f + down f)))
             (0, 0, 0) higherFrames of
        (higherUp, higherDown, higherTotal) \<Rightarrow>
          if higherTotal > 0
          then (let aligned = (if dir = LONG then higherUp else higherDown)
                in real aligned / real higherTotal)
          else 0)"

definition leverage_000 :: "direction \<Rightarrow> frame list \<Rightarrow> int" where
  "leverage_000 dir higherFrames =
     (let leverage = Math_round (30 + 20 * consensusRatio_000 dir higherFrames)
      in min 50 (max 30 leverage))"

text \<open>\<open>price = usd ?? 0\<close>, then \<open>if (!price) price = 119500\<close>.\<close>

definition price_000 :: "real option \<Rightarrow> real" where
  "price_000 usd =
     (let price = (case usd of None \<Rightarrow> 0 | Some p \<Rightarrow> p)
      in if price = 0 then 119500 else price)"

text \<open>
  The levels are computed unrounded and rounded in the response, the entry price too.
  The handler calls this with a leverage between 30 and 50; the division is the
  JavaScript one only for a leverage other than 0.
\<close>

definition directive_000 :: "direction \<Rightarrow> int \<Rightarrow> real \<Rightarrow> directive" where
  "directive_000 dir lev price =
     (let entry = price;
          pctMove = 0.017;
          target = (if dir = LONG then entry * (1 + pctMove) else entry * (1 - pctMove));
          stopThreshold = 0.15 / real_of_int lev;
          stop = (if dir = LONG then entry * (1 - stopThreshold)
                  else entry * (1 + stopThreshold))
      in \<lparr>signal = dir,
          entryPrice = of_int (Math_round entry),
          targetPrice = Math_round target,
          stopPrice = Math_round stop,
          leverage = lev\<rparr>)"

definition try_000 :: "error + counts list \<Rightarrow> real option \<Rightarrow> error + response" where
  "try_000 ta usd =
     (case ta of
        Inl err \<Rightarrow> Inl err
      | Inr matches \<Rightarrow>
          (let summ = summary matches;
               dir = direction_000 summ;
               higherFrames = slice_from summ (- 3);
               lev = leverage_000 dir higherFrames;
               price = price_000 usd
           in Inr \<lparr>status = 200, json = directive_000 dir lev price\<rparr>))"

definition handler_000 :: "error + counts list \<Rightarrow> real option \<Rightarrow> response" where
  "handler_000 ta usd =
     (case try_000 ta usd of
        Inr res \<Rightarrow> res
      | Inl err \<Rightarrow> \<lparr>status = 200, json = fallback_directive\<rparr>)"

subsection \<open>Handler 001: direction from the three lowest timeframes\<close>

definition direction_001 :: "frame list \<Rightarrow> direction" where
  "direction_001 lowFrames =
     (case foldl (\<lambda>(lowUp, lowDown) f. (lowUp + up f, lowDown + down f))
             (0, 0) lowFrames of
        (lowUp, lowDown) \<Rightarrow>
          if lowUp > lowDown then LONG
          else if lowDown > lowUp then SHORT
          else SHORT)"

text \<open>
  Here \<open>highTotal\<close> is the sum of the two accumulators, and the clamp is
  \<open>Math.max(30, Math.min(50, Math.round(leverage)))\<close>.
\<close>

definition consensusRatio_001 :: "direction \<Rightarrow> frame list \<Rightarrow> real" where
  "consensusRatio_001 dir highFrames =
     (case foldl (\<lambda>(highUpTotal, highDownTotal) f.
                    (highUpTotal + up f, highDownTotal + down f))
             (0, 0) highFrames of
        (highUpTotal, highDownTotal) \<Rightarrow>
          (let highTotal = highUpTotal + highDownTotal
           in if highTotal > 0
              then (let aligned = (if dir = LONG then highUpTotal else highDownTotal)
                    in real aligned / real highTotal)
              else 0))"

definition leverage_001 :: "direction \<Rightarrow> frame list \<Rightarrow> int" where
  "leverage_001 dir highFrames =
     (let leverage = 30 + 20 * consensusRatio_001 dir highFrames
      in max 30 (min 50 (Math_round leverage)))"

text \<open>\<open>price = usd ?? 0\<close>, then \<open>if (!price || price <= 0) price = 113279\<close>.\<close>

definition price_001 :: "real option \<Rightarrow> real" where
  "price_001 usd =
     (let price = (case usd of None \<Rightarrow> 0 | Some p \<Rightarrow> p)
      in if price = 0 \<or> price \<le> 0 then 113279 else price)"

text \<open>The levels are rounded as they are computed; the entry price is not rounded.\<close>

definition directive_001 :: "direction \<Rightarrow> int \<Rightarrow> real \<Rightarrow> directive" where
  "directive_001 dir lev price =
     (let entry = price;
          targetPct = 0.017;
          (target, stop) =
            (if dir = LONG
             then (Math_round (entry * (1 + targetPct)),
                   Math_round (entry * (1 - 0.15 / real_of_int lev)))
             else (Math_round (entry * (1 - targetPct)),
                   Math_round (entry * (1 + 0.15 / real_of_int lev))))
      in \<lparr>signal = dir,
          entryPrice = entry,
          targetPrice = target,
          stopPrice = stop,
          leverage = lev\<rparr>)"

definition try_001 :: "error + counts list \<Rightarrow> real option \<Rightarrow> error + response" where
  "try_001 ta usd =
     (case ta of
        Inl err \<Rightarrow> Inl err
      | Inr matches \<Rightarrow>
          (let summ = summary matches;
               lowFrames = slice summ 0 3;
               dir = direction_001 lowFrames;
               highFrames = slice_from summ (- 3);
               lev = leverage_001 dir highFrames;
               price = price_001 usd
           in Inr \<lparr>status = 200, json = directive_001 dir lev price\<rparr>))"

definition handler_001 :: "error + counts list \<Rightarrow> real option \<Rightarrow> response" where
  "handler_001 ta usd =
     (case try_001 ta usd of
        Inr res \<Rightarrow> res
      | Inl err \<Rightarrow> \<lparr>status = 200, json = fallback_directive\<rparr>)"

subsection \<open>The specification's vocabulary\<close>

text \<open>
  The definitions of this subsection follow the words of the specification, not the
  code: the sums of a window, the aligned and the non-aligned count of a direction,
  rounding half up to the nearest integer, clamping to a range, and the leverage
  formula. The theorems below compare them with the handlers.
\<close>

definition sum_up :: "frame list \<Rightarrow> nat" where
  "sum_up w = sum_list (map up w)"

definition sum_down :: "frame list \<Rightarrow> nat" where
  "sum_down w = sum_list (map down w)"

definition aligned :: "direction \<Rightarrow> frame list \<Rightarrow> nat" where
  "aligned dir w = (if dir = LONG then sum_up w else sum_down w)"


definition round_half_up :: "real \<Rightarrow> int" where
  "round_half_up x = (if x - of_int \<lfloor>x\<rfloor> < 1 / 2 then \<lfloor>x\<rfloor> else \<lfloor>x\<rfloor> + 1)"




subsection \<open>Inputs used in the examples\<close>

text \<open>Seven tied timeframes, as scraped when every frame reads "Up: 6 Down: 6 Neutral: 0".\<close>

definition tied_counts :: "counts list" where
  "tied_counts = [(6, 6, 0), (6, 6, 0), (6, 6, 0), (6, 6, 0), (6, 6, 0), (6, 6, 0), (6, 6, 0)]"

text \<open>One bearish indicator on the lowest timeframe, five bullish ones on the highest.\<close>

definition split_counts :: "counts list" where
  "split_counts = [(0, 1, 0), (0, 0, 0), (0, 0, 0), (0, 0, 0), (0, 0, 0), (0, 0, 0), (5, 0, 0)]"

section \<open>Properties\<close>

subsection \<open>The loops compute sums\<close>












lemma length_map_idx: "length (map_idx f i xs) = length xs"
  by (induction xs arbitrary: i) simp_all

lemma length_summary: "length (summary matches) = 7"
  by (simp add: summary_def length_map_idx timeframes_def)

lemma slice_low: "slice (summary matches) 0 3 = take 3 (summary matches)"
  by (simp add: slice_def length_summary Let_def)

lemma slice_high: "slice_from (summary matches) (- 3) = drop 4 (summary matches)"
  by (simp add: slice_from_def slice_def length_summary Let_def)

subsection \<open>Unfolding the handlers\<close>

lemmas handler_000_defs =
  handler_000_def try_000_def summary_def timeframes_def slice_def slice_from_def
  direction_000_def leverage_000_def consensusRatio_000_def price_000_def directive_000_def
  Math_round_def Let_def

lemmas handler_001_defs =
  handler_001_def try_001_def summary_def timeframes_def slice_def slice_from_def
  direction_001_def leverage_001_def consensusRatio_001_def price_001_def directive_001_def
  Math_round_def Let_def



lemma handler_000_Inr:
  "handler_000 (Inr matches) usd =
     \<lparr>status = 200,
      json = directive_000 (direction_000 (summary matches))
               (leverage_000 (direction_000 (summary matches)) (drop 4 (summary matches)))
               (price_000 usd)\<rparr>"
  by (simp add: handler_000_def try_000_def slice_high Let_def)

lemma handler_001_Inr:
  "handler_001 (Inr matches) usd =
     \<lparr>status = 200,
      json = directive_001 (direction_001 (take 3 (summary matches)))
               (leverage_001 (direction_001 (take 3 (summary matches)))
                  (drop 4 (summary matches)))
               (price_001 usd)\<rparr>"
  by (simp add: handler_001_def try_001_def slice_low slice_high Let_def)



lemma directive_000_sel:
  "signal (directive_000 dir lev price) = dir"
  "leverage (directive_000 dir lev price) = lev"
  "entryPrice (directive_000 dir lev price) = of_int (Math_round price)"
  by (simp_all add: directive_000_def Let_def)

lemma directive_001_sel:
  "signal (directive_001 dir lev price) = dir"
  "leverage (directive_001 dir lev price) = lev"
  "entryPrice (directive_001 dir lev price) = price"
  by (simp_all add: directive_001_def Let_def split: if_splits)

section \<open>The claims\<close>

text \<open>
  C1 (as stated): for seven tied triples (6, 6, 0) and the spot price 119500 the directive
  is SHORT with leverage 30, entry 119500, target round(119500 * 0.983) and stop
  round(119500 * 1.005). Both handlers return another directive on this input.
\<close>

theorem tied_series_counterexample:
  "json (handler_000 (Inr tied_counts) (Some 119500)) \<noteq>
     \<lparr>signal = SHORT, entryPrice = 119500, targetPrice = round_half_up (119500 * 0.983),
      stopPrice = round_half_up (119500 * 1.005), leverage = 30\<rparr>
   \<and> json (handler_001 (Inr tied_counts) (Some 119500)) \<noteq>
     \<lparr>signal = SHORT, entryPrice = 119500, targetPrice = round_half_up (119500 * 0.983),
      stopPrice = round_half_up (119500 * 1.005), leverage = 30\<rparr>"
  by (simp add: handler_000_defs handler_001_defs tied_counts_def)

text \<open>
  C1 (amended): on that input half of the up and down counts of the three highest
  timeframes are aligned with SHORT (18 of 36), so the leverage is round(30 + 20 * 0.5) = 40
  and the stop is round(119500 * (1 + 0.15 / 40)) = 119948; direction, entry and target
  are as the claim says, the target being 117469.
\<close>

theorem tied_series_directive:
  "json (handler_000 (Inr tied_counts) (Some 119500)) =
     \<lparr>signal = SHORT, entryPrice = 119500, targetPrice = round_half_up (119500 * 0.983),
      stopPrice = round_half_up (119500 * (1 + 0.15 / 40)), leverage = 40\<rparr>
   \<and> json (handler_001 (Inr tied_counts) (Some 119500)) =
     \<lparr>signal = SHORT, entryPrice = 119500, targetPrice = round_half_up (119500 * 0.983),
      stopPrice = round_half_up (119500 * (1 + 0.15 / 40)), leverage = 40\<rparr>
   \<and> round_half_up (119500 * 0.983) = 117469
   \<and> round_half_up (119500 * (1 + 0.15 / 40)) = 119948"
  by (simp add: handler_000_defs handler_001_defs tied_counts_def round_half_up_def)

text \<open>
  C2 (as stated): in the pipeline the direction is resolved over the leading window of
  the series. Handler 000 sums all seven timeframes: on \<open>split_counts\<close> it answers LONG,
  while every leading window that leaves the last timeframe out resolves to SHORT.
\<close>

theorem leading_window_counterexample:
  "signal (json (handler_000 (Inr split_counts) (Some 100000))) = LONG
   \<and> direction_000 (take 0 (summary split_counts)) = SHORT
   \<and> direction_000 (take 1 (summary split_counts)) = SHORT
   \<and> direction_000 (take 2 (summary split_counts)) = SHORT
   \<and> direction_000 (take 3 (summary split_counts)) = SHORT
   \<and> direction_000 (take 4 (summary split_counts)) = SHORT
   \<and> direction_000 (take 5 (summary split_counts)) = SHORT
   \<and> direction_000 (take 6 (summary split_counts)) = SHORT"
  by (simp add: handler_000_defs split_counts_def)

text \<open>
  C2 (amended): for every sequence of raw counts the summary has seven entries; handler
  001 resolves the direction over the first three of them and handler 000 over all
  seven; both resolve the leverage over the last three, with the direction just resolved.
\<close>

theorem produce_windows:
  "signal (json (handler_001 (Inr matches) usd)) = direction_001 (take 3 (summary matches))
   \<and> leverage (json (handler_001 (Inr matches) usd)) =
       leverage_001 (direction_001 (take 3 (summary matches))) (drop 4 (summary matches))
   \<and> signal (json (handler_000 (Inr matches) usd)) = direction_000 (summary matches)
   \<and> leverage (json (handler_000 (Inr matches) usd)) =
       leverage_000 (direction_000 (summary matches)) (drop 4 (summary matches))
   \<and> length (summary matches) = 7"
  by (simp add: handler_000_Inr handler_001_Inr directive_000_sel directive_001_sel
      length_summary)

text \<open>
  C3: the spot price is the entry price if and only if it is present and greater than 0,
  and the fallback constant is used otherwise. Handler 001 does this, with the constant
  113279.
\<close>

lemma entryPrice_001:
  "entryPrice (json (handler_001 (Inr matches) usd)) =
     (case usd of None \<Rightarrow> 113279 | Some p \<Rightarrow> if 0 < p then p else 113279)"
  by (auto simp add: handler_001_Inr directive_001_sel price_001_def split: option.splits)

text \<open>
  C3, handler 000: its test is \<open>!price\<close> alone, so a negative spot price is taken as the
  entry price, where handler 001 substitutes its constant.
\<close>

theorem negative_price_entry:
  "entryPrice (json (handler_000 (Inr []) (Some (- 5)))) = - 5
   \<and> entryPrice (json (handler_001 (Inr []) (Some (- 5)))) = 113279"
  by (simp add: handler_000_Inr handler_001_Inr directive_000_sel directive_001_sel
      price_000_def price_001_def Math_round_def)












subsection \<open>Rounding next to an integer\<close>

lemma Math_round_ge: "of_int z \<le> x \<Longrightarrow> z \<le> Math_round x"
  by (simp add: Math_round_def le_floor_iff)

lemma Math_round_le: "x \<le> of_int z \<Longrightarrow> Math_round x \<le> z"
  by (simp add: Math_round_def floor_le_iff)

lemma Math_round_of_int: "Math_round (of_int z) = z"
  by (simp add: Math_round_def)

text \<open>
  C10: for a positive integer entry price and a leverage between 30 and 50 the computed
  levels enclose the entry: stop \<le> entry \<le> target for LONG and
  target \<le> entry \<le> stop for SHORT, in both handlers.
\<close>

theorem levels_ordered:
  assumes "0 < e" and "30 \<le> lev" and "lev \<le> 50"
  shows "of_int (stopPrice (directive_000 LONG lev (of_int e)))
           \<le> entryPrice (directive_000 LONG lev (of_int e))
       \<and> entryPrice (directive_000 LONG lev (of_int e))
           \<le> of_int (targetPrice (directive_000 LONG lev (of_int e)))
       \<and> of_int (targetPrice (directive_000 SHORT lev (of_int e)))
           \<le> entryPrice (directive_000 SHORT lev (of_int e))
       \<and> entryPrice (directive_000 SHORT lev (of_int e))
           \<le> of_int (stopPrice (directive_000 SHORT lev (of_int e)))
       \<and> of_int (stopPrice (directive_001 LONG lev (of_int e)))
           \<le> entryPrice (directive_001 LONG lev (of_int e))
       \<and> entryPrice (directive_001 LONG lev (of_int e))
           \<le> of_int (targetPrice (directive_001 LONG lev (of_int e)))
       \<and> of_int (targetPrice (directive_001 SHORT lev (of_int e)))
           \<le> entryPrice (directive_001 SHORT lev (of_int e))
       \<and> entryPrice (directive_001 SHORT lev (of_int e))
           \<le> of_int (stopPrice (directive_001 SHORT lev (of_int e)))"
proof -
  have p: "0 \<le> real_of_int e"
    using assms(1) by simp
  have t: "0 \<le> 0.15 / real_of_int lev"
    using assms(2) by simp
  have pt: "0 \<le> real_of_int e * (0.15 / real_of_int lev)"
    using p t by (rule mult_nonneg_nonneg)
  have up_target: "e \<le> Math_round (real_of_int e * (1 + 0.017))"
    by (rule Math_round_ge) (use p in \<open>simp add: algebra_simps\<close>)
  have down_target: "Math_round (real_of_int e * (1 - 0.017)) \<le> e"
    by (rule Math_round_le) (use p in \<open>simp add: algebra_simps\<close>)
  have up_stop: "e \<le> Math_round (real_of_int e * (1 + 0.15 / real_of_int lev))"
    by (rule Math_round_ge) (use pt in \<open>simp add: algebra_simps\<close>)
  have down_stop: "Math_round (real_of_int e * (1 - 0.15 / real_of_int lev)) \<le> e"
    by (rule Math_round_le) (use pt in \<open>simp add: algebra_simps\<close>)
  show ?thesis
    using up_target down_target up_stop down_stop
    by (simp add: directive_000_def directive_001_def Let_def Math_round_of_int)
qed

theorem levels_ordered_witness:
  "(0::int) < 100000 \<and> (30::int) \<le> 40 \<and> (40::int) \<le> 50
   \<and> directive_001 LONG 40 100000 =
       \<lparr>signal = LONG, entryPrice = 100000, targetPrice = 101700, stopPrice = 99625,
        leverage = 40\<rparr>
   \<and> directive_001 SHORT 40 100000 =
       \<lparr>signal = SHORT, entryPrice = 100000, targetPrice = 98300, stopPrice = 100375,
        leverage = 40\<rparr>
   \<and> stopPrice (directive_000 LONG 40 100000) \<le> 100000
   \<and> 100000 \<le> targetPrice (directive_000 LONG 40 100000)
   \<and> targetPrice (directive_000 SHORT 40 100000) \<le> 100000
   \<and> 100000 \<le> stopPrice (directive_000 SHORT 40 100000)"
  using levels_ordered [of 100000 40]
  by (simp add: directive_000_def directive_001_def Let_def Math_round_def)

end
